theory Spec2Isabelle
  imports Main "HOL-Library.Word"
begin

section \<open>Garbage-collected handles and factories (eCore, Memory/GarbageCollection.h)\<close>

text \<open>
  The header defines a counter record (\<open>GCCounter\<close>), three handle classes over it
  (\<open>GCUniquePtr\<close>, \<open>GCThisPtr\<close>, \<open>GCWeakPtr\<close>) and \<open>GCConcreteFactory\<close>, which
  implements the collector interface \<open>IGarbageCollector\<close> (\<open>Collect\<close>, \<open>Destroy\<close>).

  The embedding is sequential. Pointers are addresses: \<open>None\<close> is \<open>nullptr\<close>. Counter
  records live in an explicit store (\<open>heap\<close>), because several handles alias one record;
  \<open>E_NEW(Counter)\<close> writes a record at an address supplied by the allocator and
  \<open>E_DELETE(mpCounter)\<close> removes it. Factories live in a second store, indexed by their
  own address (the \<open>this\<close> a record keeps in \<open>pCollector\<close>). Objects of type \<open>T\<close> carry no
  content: the model records the calls that reach a collector (\<open>calls\<close>), in order.
  Mutexes are left out (one thread); the allocator is an external collaborator and enters
  through the addresses it returns.

  Everything that stops the program or is undefined in C++ is an \<open>error\<close> value:
  a failed assertion, a read through \<open>nullptr\<close>, a read of a freed record.
\<close>

type_synonym addr = nat
type_synonym obj = nat
type_synonym cid = nat

datatype error = AssertionFailed | NullDereference | DanglingPointer

text \<open>
  \<open>struct GCCounter { CounterType count; T* ptr; IGarbageCollector<T>* pCollector; }\<close>.
  \<open>CounterType\<close> defaults to \<open>A32\<close> (Threads/Atomic.h, not part of the sources at hand):
  a 32-bit counter, whose increments and decrements wrap.
\<close>

record GCCounter =
  count :: "32 word"
  ptr :: "obj option"
  pCollector :: "cid option"

text \<open>Each handle class has the single field \<open>mpCounter\<close>.\<close>

datatype GCUniquePtr = GCUniquePtr (unique_mpCounter: "addr option")

datatype GCThisPtr = GCThisPtr (this_mpCounter: addr)

datatype GCWeakPtr = GCWeakPtr (weak_mpCounter: "addr option")

text \<open>\<open>GCConcreteFactory\<close>: the live list of owning handles and the teardown flag.\<close>

record GCConcreteFactory =
  mLiveList :: "GCUniquePtr list"
  mCleaningUp :: bool

datatype event = CollectCall cid "obj option" | DestroyCall cid "obj option"

record world =
  heap :: "addr \<Rightarrow> GCCounter option"
  factories :: "cid \<Rightarrow> GCConcreteFactory option"
  calls :: "event list"

text \<open>
  Modelled from the spec: the assertion macros \<open>E_ASSERT\<close>, \<open>E_ASSERT_MSG\<close> and
  \<open>E_ASSERT_PTR\<close> are not in the sources at hand. The spec calls a violated contract
  "fatal in debug builds" and "checked defensively (debug-only)": with \<open>dbg\<close> (a debug
  build) a false condition stops the program, without it the check is compiled out.
  \<open>E_ASSERT_ALWAYS\<close> stops the program in every build.
\<close>

definition E_ASSERT_fails :: "bool \<Rightarrow> bool \<Rightarrow> bool" where
  "E_ASSERT_fails dbg cond = (dbg \<and> \<not> cond)"

subsection \<open>GCUniquePtr\<close>

text \<open>
  \<open>GCUniquePtr(T* ptr, IGarbageCollector<T>* pCollector)\<close>: two assertions, then a new
  counter record at address \<open>a\<close> (\<open>GCCounter()\<close> sets \<open>count\<close> to 0).
\<close>

definition GCUniquePtr_new ::
  "bool \<Rightarrow> obj option \<Rightarrow> cid option \<Rightarrow> addr \<Rightarrow> world \<Rightarrow> error + (GCUniquePtr \<times> world)" where
  "GCUniquePtr_new dbg p c a w =
    (if E_ASSERT_fails dbg (p \<noteq> None) then Inl AssertionFailed
     else if E_ASSERT_fails dbg (c \<noteq> None) then Inl AssertionFailed
     else Inr (GCUniquePtr (Some a),
               w\<lparr>heap := (heap w)(a \<mapsto> \<lparr>count = 0, ptr = p, pCollector = c\<rparr>)\<rparr>))"

text \<open>
  \<open>Swap(const GCUniquePtr& other)\<close> exchanges the two \<open>mpCounter\<close> fields (the field is
  \<open>mutable\<close>). The result is the pair (this, other) after the call.
\<close>

definition GCUniquePtr_Swap :: "GCUniquePtr \<Rightarrow> GCUniquePtr \<Rightarrow> GCUniquePtr \<times> GCUniquePtr" where
  "GCUniquePtr_Swap this other =
    (let tmpManagedPtr = unique_mpCounter this
     in (GCUniquePtr (unique_mpCounter other), GCUniquePtr tmpManagedPtr))"

text \<open>Copy constructor: \<open>mpCounter(nullptr)\<close>, then \<open>Swap(other)\<close>.\<close>

definition GCUniquePtr_copy :: "GCUniquePtr \<Rightarrow> GCUniquePtr \<times> GCUniquePtr" where
  "GCUniquePtr_copy other = GCUniquePtr_Swap (GCUniquePtr None) other"

text \<open>\<open>operator=(const GCUniquePtr& other)\<close>: \<open>Swap(other); return *this\<close>.\<close>

definition GCUniquePtr_assign :: "GCUniquePtr \<Rightarrow> GCUniquePtr \<Rightarrow> GCUniquePtr \<times> GCUniquePtr" where
  "GCUniquePtr_assign this other = GCUniquePtr_Swap this other"

text \<open>
  \<open>operator==(const GCUniquePtr& other)\<close>:
  \<open>mpCounter == other.mpCounter ? mpCounter->ptr == other.mpCounter->ptr : false\<close>.
  With equal fields both sides of the inner comparison read the same record.
\<close>

definition GCUniquePtr_eq :: "GCUniquePtr \<Rightarrow> GCUniquePtr \<Rightarrow> world \<Rightarrow> error + bool" where
  "GCUniquePtr_eq this other w =
    (if unique_mpCounter this = unique_mpCounter other then
       (case unique_mpCounter this of
          None \<Rightarrow> Inl NullDereference
        | Some a \<Rightarrow>
            (case heap w a of
               None \<Rightarrow> Inl DanglingPointer
             | Some r \<Rightarrow> Inr (ptr r = ptr r)))
     else Inr False)"

text \<open>
  \<open>operator==(const T* ptr)\<close>:
  \<open>mpCounter == nullptr ? ptr == nullptr : mpCounter->ptr == ptr\<close>.
\<close>

definition GCUniquePtr_eq_raw :: "GCUniquePtr \<Rightarrow> obj option \<Rightarrow> world \<Rightarrow> error + bool" where
  "GCUniquePtr_eq_raw this p w =
    (case unique_mpCounter this of
       None \<Rightarrow> Inr (p = None)
     | Some a \<Rightarrow>
         (case heap w a of
            None \<Rightarrow> Inl DanglingPointer
          | Some r \<Rightarrow> Inr (ptr r = p)))"

text \<open>
  \<open>GCConcreteFactory::Destroy(T* ptr)\<close>, reached through the collector pointer \<open>c\<close>:
  \<open>E_ASSERT(ptr)\<close>, then the object goes back to the allocator.
\<close>

definition GCConcreteFactory_Destroy :: "bool \<Rightarrow> cid \<Rightarrow> obj option \<Rightarrow> world \<Rightarrow> error + world" where
  "GCConcreteFactory_Destroy dbg c p w =
    (case factories w c of
       None \<Rightarrow> Inl DanglingPointer
     | Some f \<Rightarrow>
         if E_ASSERT_fails dbg (p \<noteq> None) then Inl AssertionFailed
         else Inr (w\<lparr>calls := calls w @ [DestroyCall c p]\<rparr>))"

text \<open>
  \<open>GCUniquePtr::Reset\<close>: with a record, \<open>pCollector->Destroy(ptr)\<close>, then the record is
  deleted when \<open>count == 0\<close> and keeps a null \<open>ptr\<close> otherwise; the handle ends empty.
\<close>

definition GCUniquePtr_Reset :: "bool \<Rightarrow> GCUniquePtr \<Rightarrow> world \<Rightarrow> error + (GCUniquePtr \<times> world)" where
  "GCUniquePtr_Reset dbg this w =
    (case unique_mpCounter this of
       None \<Rightarrow> Inr (GCUniquePtr None, w)
     | Some a \<Rightarrow>
         (case heap w a of
            None \<Rightarrow> Inl DanglingPointer
          | Some r \<Rightarrow>
              (case pCollector r of
                 None \<Rightarrow> Inl NullDereference
               | Some c \<Rightarrow>
                   (case GCConcreteFactory_Destroy dbg c (ptr r) w of
                      Inl e \<Rightarrow> Inl e
                    | Inr w1 \<Rightarrow>
                        if count r = 0
                        then Inr (GCUniquePtr None, w1\<lparr>heap := (heap w1)(a := None)\<rparr>)
                        else Inr (GCUniquePtr None,
                                  w1\<lparr>heap := (heap w1)(a \<mapsto> r\<lparr>ptr := None\<rparr>)\<rparr>)))))"

subsection \<open>GCThisPtr\<close>

text \<open>\<open>GCThisPtr(T* ptr)\<close>: a new record with \<open>ptr\<close> set and no collector.\<close>

definition GCThisPtr_new :: "obj option \<Rightarrow> addr \<Rightarrow> world \<Rightarrow> GCThisPtr \<times> world" where
  "GCThisPtr_new p a w =
    (GCThisPtr a, w\<lparr>heap := (heap w)(a \<mapsto> \<lparr>count = 0, ptr = p, pCollector = None\<rparr>)\<rparr>)"

text \<open>\<open>~GCThisPtr()\<close>: \<open>(mpCounter->count == 0) ? E_DELETE(mpCounter) : mpCounter->ptr = nullptr\<close>.\<close>

definition GCThisPtr_delete :: "GCThisPtr \<Rightarrow> world \<Rightarrow> error + world" where
  "GCThisPtr_delete this w =
    (case heap w (this_mpCounter this) of
       None \<Rightarrow> Inl DanglingPointer
     | Some r \<Rightarrow>
         if count r = 0
         then Inr (w\<lparr>heap := (heap w)(this_mpCounter this := None)\<rparr>)
         else Inr (w\<lparr>heap := (heap w)(this_mpCounter this \<mapsto> r\<lparr>ptr := None\<rparr>)\<rparr>))"

subsection \<open>GCConcreteFactory::Collect\<close>

text \<open>
  The loop of \<open>Collect\<close>: the position of the first live-list entry with \<open>*it == ptr\<close>
  (\<open>GCUniquePtr::operator==(const T*)\<close>), or \<open>None\<close> when the loop runs to the end.
\<close>

fun find_live :: "world \<Rightarrow> GCUniquePtr list \<Rightarrow> obj option \<Rightarrow> error + nat option" where
  "find_live w [] p = Inr None"
| "find_live w (x # xs) p =
    (case GCUniquePtr_eq_raw x p w of
       Inl e \<Rightarrow> Inl e
     | Inr b \<Rightarrow>
         if b then Inr (Some 0)
         else (case find_live w xs p of
                 Inl e \<Rightarrow> Inl e
               | Inr None \<Rightarrow> Inr None
               | Inr (Some i) \<Rightarrow> Inr (Some (Suc i))))"

text \<open>
  Modelled from the spec: \<open>Containers::List\<close> is not in the sources at hand. The spec says
  of \<open>RemoveFast\<close> that it removes the entry "without preserving order": the last entry
  takes the place of the removed one and the list shrinks by one. The removed owning
  handle is destroyed (\<open>~GCUniquePtr\<close> is \<open>Reset\<close>). \<open>PushBack\<close> appends a copy
  (copy-constructed, so it takes over the record of its argument) and \<open>Clear\<close> destroys
  every entry, front to back.
\<close>

definition List_RemoveFast :: "nat \<Rightarrow> 'a list \<Rightarrow> 'a list" where
  "List_RemoveFast i xs = butlast (xs[i := last xs])"

definition set_factory :: "cid \<Rightarrow> GCConcreteFactory \<Rightarrow> world \<Rightarrow> world" where
  "set_factory c f w = w\<lparr>factories := (factories w)(c \<mapsto> f)\<rparr>"

definition GCConcreteFactory_Collect :: "bool \<Rightarrow> cid \<Rightarrow> obj option \<Rightarrow> world \<Rightarrow> error + world" where
  "GCConcreteFactory_Collect dbg c p w0 =
    (let w = w0\<lparr>calls := calls w0 @ [CollectCall c p]\<rparr> in
     case factories w c of
       None \<Rightarrow> Inl DanglingPointer
     | Some f \<Rightarrow>
         if mCleaningUp f then Inr w
         else
           (case find_live w (mLiveList f) p of
              Inl e \<Rightarrow> Inl e
            | Inr None \<Rightarrow> Inl AssertionFailed
            | Inr (Some i) \<Rightarrow>
                (case GCUniquePtr_Reset dbg (mLiveList f ! i)
                        (set_factory c (f\<lparr>mLiveList := List_RemoveFast i (mLiveList f)\<rparr>) w) of
                   Inl e \<Rightarrow> Inl e
                 | Inr (h, w') \<Rightarrow> Inr w')))"

subsection \<open>GCWeakPtr\<close>

text \<open>\<open>GCWeakPtr(const GCWeakPtr& other)\<close>: \<open>if (mpCounter) ++(mpCounter->count)\<close>.\<close>

definition GCWeakPtr_copy :: "GCWeakPtr \<Rightarrow> world \<Rightarrow> error + (GCWeakPtr \<times> world)" where
  "GCWeakPtr_copy other w =
    (case weak_mpCounter other of
       None \<Rightarrow> Inr (GCWeakPtr None, w)
     | Some a \<Rightarrow>
         (case heap w a of
            None \<Rightarrow> Inl DanglingPointer
          | Some r \<Rightarrow>
              Inr (GCWeakPtr (Some a), w\<lparr>heap := (heap w)(a \<mapsto> r\<lparr>count := count r + 1\<rparr>)\<rparr>)))"

text \<open>
  Modelled from the spec: \<open>SafeCast\<close> (SafeCast.h) is not in the sources at hand. The spec
  requires of a cross-type attachment "that the underlying object is actually an instance"
  of the target type; handles of one object type are modelled, where the cast returns its
  argument, so the assertion below checks that the pointer is not null.

  \<open>GCWeakPtr(const GCUniquePtr<U, CounterType>& other)\<close> and the same from a
  \<open>GCThisPtr\<close>: with a record, \<open>E_ASSERT(SafeCast<T>(other.mpCounter->ptr))\<close>, then the
  increment.
\<close>

definition GCWeakPtr_attach :: "bool \<Rightarrow> addr option \<Rightarrow> world \<Rightarrow> error + (GCWeakPtr \<times> world)" where
  "GCWeakPtr_attach dbg m w =
    (case m of
       None \<Rightarrow> Inr (GCWeakPtr None, w)
     | Some a \<Rightarrow>
         (case heap w a of
            None \<Rightarrow> Inl DanglingPointer
          | Some r \<Rightarrow>
              if E_ASSERT_fails dbg (ptr r \<noteq> None) then Inl AssertionFailed
              else Inr (GCWeakPtr (Some a),
                        w\<lparr>heap := (heap w)(a \<mapsto> r\<lparr>count := count r + 1\<rparr>)\<rparr>)))"

definition GCWeakPtr_from_unique ::
  "bool \<Rightarrow> GCUniquePtr \<Rightarrow> world \<Rightarrow> error + (GCWeakPtr \<times> world)" where
  "GCWeakPtr_from_unique dbg other w = GCWeakPtr_attach dbg (unique_mpCounter other) w"

definition GCWeakPtr_from_this ::
  "bool \<Rightarrow> GCThisPtr \<Rightarrow> world \<Rightarrow> error + (GCWeakPtr \<times> world)" where
  "GCWeakPtr_from_this dbg other w = GCWeakPtr_attach dbg (Some (this_mpCounter other)) w"

text \<open>
  \<open>operator==(const GCWeakPtr& other)\<close>, its three statements in order.
\<close>

definition GCWeakPtr_eq :: "GCWeakPtr \<Rightarrow> GCWeakPtr \<Rightarrow> world \<Rightarrow> error + bool" where
  "GCWeakPtr_eq this other w =
    (if weak_mpCounter this = weak_mpCounter other then Inr True
     else
       (case weak_mpCounter this of
          None \<Rightarrow>
            (case weak_mpCounter other of
               None \<Rightarrow> Inl NullDereference
             | Some b \<Rightarrow>
                 (case heap w b of
                    None \<Rightarrow> Inl DanglingPointer
                  | Some rb \<Rightarrow> Inr (ptr rb = None)))
        | Some a \<Rightarrow>
            (case weak_mpCounter other of
               None \<Rightarrow>
                 (case heap w a of
                    None \<Rightarrow> Inl DanglingPointer
                  | Some ra \<Rightarrow> Inr (ptr ra = None))
             | Some b \<Rightarrow> Inr False)))"

text \<open>\<open>GetCount\<close> and \<open>GetPtr\<close>; the count is read as an unsigned \<open>size_t\<close>.\<close>

definition GCWeakPtr_GetCount :: "GCWeakPtr \<Rightarrow> world \<Rightarrow> error + nat" where
  "GCWeakPtr_GetCount this w =
    (case weak_mpCounter this of
       None \<Rightarrow> Inr 0
     | Some a \<Rightarrow>
         (case heap w a of
            None \<Rightarrow> Inl DanglingPointer
          | Some r \<Rightarrow> Inr (unat (count r))))"

definition GCWeakPtr_GetPtr :: "GCWeakPtr \<Rightarrow> world \<Rightarrow> error + obj option" where
  "GCWeakPtr_GetPtr this w =
    (case weak_mpCounter this of
       None \<Rightarrow> Inr None
     | Some a \<Rightarrow>
         (case heap w a of
            None \<Rightarrow> Inl DanglingPointer
          | Some r \<Rightarrow> Inr (ptr r)))"

text \<open>
  \<open>operator*\<close>: \<open>E_ASSERT_MSG(mpCounter && mpCounter->ptr, ...)\<close>, then
  \<open>*(mpCounter->ptr)\<close>. Without the assertion the read goes through \<open>nullptr\<close>.
\<close>

definition GCWeakPtr_deref :: "bool \<Rightarrow> GCWeakPtr \<Rightarrow> world \<Rightarrow> error + obj" where
  "GCWeakPtr_deref dbg this w =
    (case weak_mpCounter this of
       None \<Rightarrow> if E_ASSERT_fails dbg False then Inl AssertionFailed else Inl NullDereference
     | Some a \<Rightarrow>
         (case heap w a of
            None \<Rightarrow> Inl DanglingPointer
          | Some r \<Rightarrow>
              if E_ASSERT_fails dbg (ptr r \<noteq> None) then Inl AssertionFailed
              else (case ptr r of None \<Rightarrow> Inl NullDereference | Some x \<Rightarrow> Inr x)))"

text \<open>
  \<open>GCWeakPtr::Reset\<close>: with a record, the decrement; at zero the record is deleted when
  its \<open>ptr\<close> is null, else \<open>pCollector->Collect(ptr)\<close> is called when there is a
  collector; then the handle is emptied.
\<close>

definition GCWeakPtr_Reset :: "bool \<Rightarrow> GCWeakPtr \<Rightarrow> world \<Rightarrow> error + (GCWeakPtr \<times> world)" where
  "GCWeakPtr_Reset dbg this w =
    (case weak_mpCounter this of
       None \<Rightarrow> Inr (this, w)
     | Some a \<Rightarrow>
         (case heap w a of
            None \<Rightarrow> Inl DanglingPointer
          | Some r0 \<Rightarrow>
              (let r = r0\<lparr>count := count r0 - 1\<rparr>;
                   w1 = w\<lparr>heap := (heap w)(a \<mapsto> r)\<rparr>
               in if count r = 0 then
                    (case ptr r of
                       None \<Rightarrow> Inr (GCWeakPtr None, w1\<lparr>heap := (heap w1)(a := None)\<rparr>)
                     | Some x \<Rightarrow>
                         (case pCollector r of
                            None \<Rightarrow> Inr (GCWeakPtr None, w1)
                          | Some c \<Rightarrow>
                              (case GCConcreteFactory_Collect dbg c (Some x) w1 of
                                 Inl e \<Rightarrow> Inl e
                               | Inr w2 \<Rightarrow> Inr (GCWeakPtr None, w2))))
                  else Inr (GCWeakPtr None, w1))))"

subsection \<open>GCConcreteFactory\<close>

text \<open>The constructor: an empty live list, \<open>mCleaningUp(false)\<close>.\<close>

definition GCConcreteFactory_new :: GCConcreteFactory where
  "GCConcreteFactory_new = \<lparr>mLiveList = [], mCleaningUp = False\<rparr>"

definition GCConcreteFactory_GetLiveCount :: "cid \<Rightarrow> world \<Rightarrow> error + nat" where
  "GCConcreteFactory_GetLiveCount c w =
    (case factories w c of
       None \<Rightarrow> Inl DanglingPointer
     | Some f \<Rightarrow> Inr (length (mLiveList f)))"

text \<open>
  \<open>Create()\<close>. The allocator's answers are arguments: \<open>p\<close> is what \<open>E_NEW(T, ...)\<close>
  returns (\<open>None\<close> when there is no memory), \<open>a\<close> the address of the new counter record.
  \<open>E_ASSERT_PTR(ptr)\<close>; the temporary \<open>Ptr(ptr, this)\<close>; \<open>PushBack\<close> copy-constructs
  the new last entry from it, and the emptied temporary is destroyed; the result is a
  \<open>Ref\<close> constructed from the last entry.
\<close>

definition GCConcreteFactory_Create ::
  "bool \<Rightarrow> cid \<Rightarrow> obj option \<Rightarrow> addr \<Rightarrow> world \<Rightarrow> error + (GCWeakPtr \<times> world)" where
  "GCConcreteFactory_Create dbg c p a w =
    (case factories w c of
       None \<Rightarrow> Inl DanglingPointer
     | Some f \<Rightarrow>
         if E_ASSERT_fails dbg (p \<noteq> None) then Inl AssertionFailed
         else
           (case GCUniquePtr_new dbg p (Some c) a w of
              Inl e \<Rightarrow> Inl e
            | Inr (tmp, w1) \<Rightarrow>
                (case GCUniquePtr_copy tmp of
                   (entry, tmp') \<Rightarrow>
                     (case GCUniquePtr_Reset dbg tmp'
                             (set_factory c (f\<lparr>mLiveList := mLiveList f @ [entry]\<rparr>) w1) of
                        Inl e \<Rightarrow> Inl e
                      | Inr (tmp'', w2) \<Rightarrow> GCWeakPtr_from_unique dbg entry w2))))"

text \<open>
  Modelled from the spec: \<open>Containers::List::Clear\<close> (not in the sources at hand)
  "clears the entire live set (destroying every still-live object via their Owning Handle
  destructors)"; the entries are destroyed front to back.
\<close>

fun List_Clear :: "bool \<Rightarrow> GCUniquePtr list \<Rightarrow> world \<Rightarrow> error + world" where
  "List_Clear dbg [] w = Inr w"
| "List_Clear dbg (x # xs) w =
    (case GCUniquePtr_Reset dbg x w of
       Inl e \<Rightarrow> Inl e
     | Inr (h, w') \<Rightarrow> List_Clear dbg xs w')"

text \<open>
  \<open>CleanUp()\<close>: the flag is set, \<open>mLiveList.Clear()\<close> destroys every entry, the flag is
  cleared.
\<close>

definition GCConcreteFactory_CleanUp :: "bool \<Rightarrow> cid \<Rightarrow> world \<Rightarrow> error + world" where
  "GCConcreteFactory_CleanUp dbg c w =
    (case factories w c of
       None \<Rightarrow> Inl DanglingPointer
     | Some f \<Rightarrow>
         (case List_Clear dbg (mLiveList f) (set_factory c (f\<lparr>mCleaningUp := True\<rparr>) w) of
            Inl e \<Rightarrow> Inl e
          | Inr w' \<Rightarrow> Inr (set_factory c \<lparr>mLiveList = [], mCleaningUp = False\<rparr> w')))"

subsection \<open>Concrete worlds\<close>

text \<open>
  A world given by the list of its counter records and the list of its factories, with
  no collector call made yet. It is used to write down concrete inputs.
\<close>

definition world_of :: "(addr \<times> GCCounter) list \<Rightarrow> (cid \<times> GCConcreteFactory) list \<Rightarrow> world" where
  "world_of rs fs = \<lparr>heap = map_of rs, factories = map_of fs, calls = []\<rparr>"

section \<open>Properties\<close>

subsection \<open>The live-list scan and the unordered removal\<close>

lemma eq_raw_calls [simp]:
  "GCUniquePtr_eq_raw x p (w\<lparr>calls := cs\<rparr>) = GCUniquePtr_eq_raw x p w"
  by (simp add: GCUniquePtr_eq_raw_def split: option.splits)

lemma find_live_calls [simp]:
  "find_live (w\<lparr>calls := cs\<rparr>) xs p = find_live w xs p"
  by (induction xs) (simp_all split: sum.splits option.splits)

lemma find_live_SomeD:
  "find_live w xs p = Inr (Some i) \<Longrightarrow>
     i < length xs \<and> GCUniquePtr_eq_raw (xs ! i) p w = Inr True \<and>
     (\<forall>j<i. GCUniquePtr_eq_raw (xs ! j) p w = Inr False)"
proof (induction xs arbitrary: i)
  case Nil
  then show ?case by simp
next
  case (Cons x xs)
  show ?case
  proof (cases "GCUniquePtr_eq_raw x p w")
    case (Inl e)
    with Cons.prems show ?thesis by simp
  next
    case (Inr b)
    show ?thesis
    proof (cases b)
      case True
      with Inr Cons.prems show ?thesis by simp
    next
      case False
      with Inr Cons.prems obtain k where k: "find_live w xs p = Inr (Some k)" "i = Suc k"
        by (auto split: sum.splits option.splits)
      from Cons.IH [OF k(1)] Inr False k(2) show ?thesis
        by (auto simp: less_Suc_eq_0_disj)
    qed
  qed
qed

lemma find_live_first:
  "i < length xs \<Longrightarrow> GCUniquePtr_eq_raw (xs ! i) p w = Inr True \<Longrightarrow>
   (\<forall>j<i. GCUniquePtr_eq_raw (xs ! j) p w = Inr False) \<Longrightarrow>
   find_live w xs p = Inr (Some i)"
proof (induction xs arbitrary: i)
  case Nil
  then show ?case by simp
next
  case (Cons x xs)
  show ?case
  proof (cases i)
    case 0
    with Cons.prems show ?thesis by simp
  next
    case (Suc k)
    with Cons.prems have "GCUniquePtr_eq_raw x p w = Inr False" by auto
    moreover from Suc Cons.prems have "find_live w xs p = Inr (Some k)"
      by (intro Cons.IH) auto
    ultimately show ?thesis using Suc by simp
  qed
qed

lemma find_live_none:
  "(\<forall>x\<in>set xs. GCUniquePtr_eq_raw x p w = Inr False) \<Longrightarrow> find_live w xs p = Inr None"
  by (induction xs) simp_all

lemma count_list_update:
  "i < length ys \<Longrightarrow>
   count_list (ys[i := v]) e + (if e = ys ! i then 1 else 0) =
   count_list ys e + (if e = v then 1 else 0)"
proof (induction ys arbitrary: i)
  case Nil
  then show ?case by simp
next
  case (Cons y ys)
  show ?case
  proof (cases i)
    case 0
    then show ?thesis by simp
  next
    case (Suc k)
    with Cons.prems have "k < length ys" by simp
    from Cons.IH [OF this] Suc show ?thesis by (auto split: if_splits)
  qed
qed

lemma count_list_RemoveFast:
  assumes "i < length xs"
  shows "count_list (List_RemoveFast i xs) e = count_list xs e - (if e = xs ! i then 1 else 0)"
proof -
  from assms have "xs \<noteq> []" by auto
  then obtain ys l where xs: "xs = ys @ [l]" by (metis rev_exhaust)
  show ?thesis
  proof (cases "i < length ys")
    case True
    then have "List_RemoveFast i xs = ys[i := l]"
      by (simp add: List_RemoveFast_def xs list_update_append)
    moreover from True have "xs ! i = ys ! i" by (simp add: xs nth_append)
    ultimately show ?thesis using count_list_update [OF True, of l e]
      by (auto simp: xs split: if_splits)
  next
    case False
    with assms have i: "i = length ys" by (simp add: xs)
    then show ?thesis by (simp add: List_RemoveFast_def xs)
  qed
qed

lemma length_RemoveFast: "length (List_RemoveFast i xs) = length xs - 1"
  by (simp add: List_RemoveFast_def)

lemma unique_reset_factories:
  "GCUniquePtr_Reset dbg h w = Inr (h', w') \<Longrightarrow> factories w' = factories w"
  by (auto simp add: GCUniquePtr_Reset_def GCConcreteFactory_Destroy_def
      split: option.splits sum.splits if_splits)

text \<open>
  When \<open>CleanUp\<close> returns, the live list is empty and the teardown flag is cleared:
  the flag is set only while the list is being cleared.
\<close>

text \<open>
  Calls are only ever appended to the log, and a \<open>Collect\<close> that returns has logged itself
  first.
\<close>

lemma unique_reset_calls:
  "GCUniquePtr_Reset dbg h w = Inr (h', w') \<Longrightarrow> \<exists>rest. calls w' = calls w @ rest"
  by (auto simp add: GCUniquePtr_Reset_def GCConcreteFactory_Destroy_def
      split: option.splits sum.splits if_splits)

lemma collect_logged:
  assumes "GCConcreteFactory_Collect dbg c p w = Inr w'"
  shows "\<exists>rest. calls w' = calls w @ CollectCall c p # rest"
proof -
  obtain f where f: "factories w c = Some f"
    using assms by (auto simp add: GCConcreteFactory_Collect_def Let_def split: option.splits)
  show ?thesis
  proof (cases "mCleaningUp f")
    case True
    with assms f show ?thesis by (auto simp add: GCConcreteFactory_Collect_def)
  next
    case False
    with assms f obtain i h' where
      "GCUniquePtr_Reset dbg (mLiveList f ! i)
         (set_factory c (f\<lparr>mLiveList := List_RemoveFast i (mLiveList f)\<rparr>)
            (w\<lparr>calls := calls w @ [CollectCall c p]\<rparr>)) = Inr (h', w')"
      by (auto simp add: GCConcreteFactory_Collect_def Let_def split: sum.splits option.splits)
    from unique_reset_calls [OF this] show ?thesis
      by (auto simp add: set_factory_def)
  qed
qed

text \<open>\<open>Collect\<close> on a factory with one live entry, evaluated.\<close>

lemma collect_eval:
  "GCConcreteFactory_Collect True 3 (Some 7)
     (world_of [(0, \<lparr>count = 0, ptr = Some 7, pCollector = Some 3\<rparr>)]
               [(3, \<lparr>mLiveList = [GCUniquePtr (Some 0)], mCleaningUp = False\<rparr>)]) =
   Inr (world_of [] [(3, \<lparr>mLiveList = [], mCleaningUp = False\<rparr>)]
          \<lparr>calls := [CollectCall 3 (Some 7), DestroyCall 3 (Some 7)]\<rparr>)"
  by (simp add: world_of_def GCConcreteFactory_Collect_def GCUniquePtr_eq_raw_def
      GCUniquePtr_Reset_def GCConcreteFactory_Destroy_def E_ASSERT_fails_def set_factory_def
      List_RemoveFast_def)

lemma CleanUp_clears:
  "GCConcreteFactory_CleanUp dbg c w = Inr w' \<Longrightarrow>
     factories w' c = Some \<lparr>mLiveList = [], mCleaningUp = False\<rparr>"
  by (auto simp add: GCConcreteFactory_CleanUp_def set_factory_def split: option.splits sum.splits)

subsection \<open>GCUniquePtr: copy, assignment, equality\<close>

text \<open>
  Copy construction leaves the source empty and hands its record to the new handle.
  Assignment is a plain \<open>Swap\<close>: the destination takes the record of the source and the
  source takes what the destination held.
\<close>

lemma unique_copy_and_assign:
  "GCUniquePtr_copy other = (other, GCUniquePtr None) \<and>
   GCUniquePtr_assign this other = (other, this)"
  by (simp add: GCUniquePtr_copy_def GCUniquePtr_assign_def GCUniquePtr_Swap_def)

text \<open>
  Claim C7 (owning-handle copy empties the source). For copy construction this is
  \<open>unique_copy_and_assign\<close>. For copy assignment it fails when the destination holds a
  record: after \<open>dst = src\<close> with \<open>dst\<close> on record 1 and \<open>src\<close> on record 2, the source
  holds record 1 instead of being empty. The header's usage contract says the handle
  "acts like std::auto_ptr" and that the "assignment operator invalidate[s] an original
  valid pointer".
\<close>

theorem unique_assign_keeps_source_attached:
  "GCUniquePtr_assign (GCUniquePtr (Some 1)) (GCUniquePtr (Some 2)) =
     (GCUniquePtr (Some 2), GCUniquePtr (Some 1))"
  by (simp add: GCUniquePtr_assign_def GCUniquePtr_Swap_def)

text \<open>
  Claim C5, as amended. Equality of two owning handles is decided by the records they
  hold, not by the object pointers in the records: handles whose \<open>mpCounter\<close> fields differ
  compare not-equal whatever their records contain, and two handles on the same live
  record compare equal.
\<close>

theorem unique_eq_is_record_identity:
  "(unique_mpCounter h1 \<noteq> unique_mpCounter h2 \<longrightarrow> GCUniquePtr_eq h1 h2 w = Inr False) \<and>
   (unique_mpCounter h1 = Some a \<and> unique_mpCounter h2 = Some a \<and> heap w a = Some r \<longrightarrow>
      GCUniquePtr_eq h1 h2 w = Inr True)"
  by (simp add: GCUniquePtr_eq_def)

theorem unique_eq_is_record_identity_witness:
  "GCUniquePtr_eq (GCUniquePtr (Some 0)) (GCUniquePtr None)
     (world_of [(0, \<lparr>count = 0, ptr = Some 7, pCollector = Some 3\<rparr>)] []) = Inr False \<and>
   GCUniquePtr_eq (GCUniquePtr (Some 0)) (GCUniquePtr (Some 0))
     (world_of [(0, \<lparr>count = 0, ptr = Some 7, pCollector = Some 3\<rparr>)] []) = Inr True"
proof -
  define r :: GCCounter where "r = \<lparr>count = 0, ptr = Some 7, pCollector = Some 3\<rparr>"
  define w where "w = world_of [(0, r)] []"
  have d: "unique_mpCounter (GCUniquePtr (Some 0)) \<noteq> unique_mpCounter (GCUniquePtr None)"
    by simp
  have e: "unique_mpCounter (GCUniquePtr (Some 0)) = Some 0 \<and>
           unique_mpCounter (GCUniquePtr (Some 0)) = Some 0 \<and> heap w 0 = Some r"
    by (simp add: w_def world_of_def)
  from unique_eq_is_record_identity [of "GCUniquePtr (Some 0)" "GCUniquePtr None" w 0 r] d
  have "GCUniquePtr_eq (GCUniquePtr (Some 0)) (GCUniquePtr None) w = Inr False" by blast
  moreover
  from unique_eq_is_record_identity [of "GCUniquePtr (Some 0)" "GCUniquePtr (Some 0)" w 0 r] e
  have "GCUniquePtr_eq (GCUniquePtr (Some 0)) (GCUniquePtr (Some 0)) w = Inr True" by blast
  ultimately show ?thesis by (simp add: w_def r_def)
qed

text \<open>
  Against C5 as stated: two records from separate allocations, both with object pointer
  7; the handles on them compare not-equal.
\<close>

theorem unique_eq_counterexample:
  "heap (world_of [(0, \<lparr>count = 0, ptr = Some 7, pCollector = Some 3\<rparr>),
                   (1, \<lparr>count = 0, ptr = Some 7, pCollector = Some 3\<rparr>)] []) 0 =
     Some \<lparr>count = 0, ptr = Some 7, pCollector = Some 3\<rparr> \<and>
   heap (world_of [(0, \<lparr>count = 0, ptr = Some 7, pCollector = Some 3\<rparr>),
                   (1, \<lparr>count = 0, ptr = Some 7, pCollector = Some 3\<rparr>)] []) 1 =
     Some \<lparr>count = 0, ptr = Some 7, pCollector = Some 3\<rparr> \<and>
   GCUniquePtr_eq (GCUniquePtr (Some 0)) (GCUniquePtr (Some 1))
     (world_of [(0, \<lparr>count = 0, ptr = Some 7, pCollector = Some 3\<rparr>),
                (1, \<lparr>count = 0, ptr = Some 7, pCollector = Some 3\<rparr>)] []) = Inr False"
  by (simp add: world_of_def GCUniquePtr_eq_def)

subsection \<open>GCWeakPtr: equality and Reset\<close>

text \<open>
  Claim C6, as amended. Provided neither handle refers to a freed record,
  \<open>operator==\<close> on two weak handles yields true exactly when both hold the same
  \<open>mpCounter\<close> (the same record, or both empty), or one of them is empty and the other
  resolves to a null object. Two handles on different records are never equal.
\<close>

theorem weak_eq_characterisation:
  assumes "\<forall>a. weak_mpCounter h1 = Some a \<longrightarrow> heap w a \<noteq> None"
      and "\<forall>a. weak_mpCounter h2 = Some a \<longrightarrow> heap w a \<noteq> None"
  shows "GCWeakPtr_eq h1 h2 w =
           Inr (weak_mpCounter h1 = weak_mpCounter h2 \<or>
                (weak_mpCounter h1 = None \<and> GCWeakPtr_GetPtr h2 w = Inr None) \<or>
                (weak_mpCounter h2 = None \<and> GCWeakPtr_GetPtr h1 w = Inr None))"
  using assms
  by (auto simp add: GCWeakPtr_eq_def GCWeakPtr_GetPtr_def split: option.splits)

theorem weak_eq_characterisation_witness:
  "GCWeakPtr_eq (GCWeakPtr None) (GCWeakPtr (Some 0))
     (world_of [(0, \<lparr>count = 1, ptr = None, pCollector = Some 3\<rparr>)] []) = Inr True"
proof -
  define w where "w = world_of [(0, \<lparr>count = 1, ptr = None, pCollector = Some 3\<rparr>)] []"
  have h1: "\<forall>a. weak_mpCounter (GCWeakPtr None) = Some a \<longrightarrow> heap w a \<noteq> None" by simp
  have h2: "\<forall>a. weak_mpCounter (GCWeakPtr (Some 0)) = Some a \<longrightarrow> heap w a \<noteq> None"
    by (simp add: w_def world_of_def)
  from weak_eq_characterisation [OF h1 h2] show ?thesis
    by (simp add: w_def world_of_def GCWeakPtr_GetPtr_def)
qed

text \<open>
  Against C6 as stated: two expired handles on two different records, both resolving to
  a null object, compare not-equal.
\<close>

theorem weak_eq_expired_counterexample:
  "GCWeakPtr_GetPtr (GCWeakPtr (Some 0))
     (world_of [(0, \<lparr>count = 1, ptr = None, pCollector = Some 3\<rparr>),
                (1, \<lparr>count = 1, ptr = None, pCollector = Some 3\<rparr>)] []) = Inr None \<and>
   GCWeakPtr_GetPtr (GCWeakPtr (Some 1))
     (world_of [(0, \<lparr>count = 1, ptr = None, pCollector = Some 3\<rparr>),
                (1, \<lparr>count = 1, ptr = None, pCollector = Some 3\<rparr>)] []) = Inr None \<and>
   GCWeakPtr_eq (GCWeakPtr (Some 0)) (GCWeakPtr (Some 1))
     (world_of [(0, \<lparr>count = 1, ptr = None, pCollector = Some 3\<rparr>),
                (1, \<lparr>count = 1, ptr = None, pCollector = Some 3\<rparr>)] []) = Inr False"
  by (simp add: world_of_def GCWeakPtr_eq_def GCWeakPtr_GetPtr_def)

text \<open>
  Claim C9. \<open>Reset()\<close> on a \<open>GCUniquePtr\<close> or a \<open>GCWeakPtr\<close> that holds no counter
  record returns normally in every build, leaves the handle empty and leaves the whole
  world as it was: no record is freed and no \<open>Collect\<close> or \<open>Destroy\<close> call is made.
\<close>

theorem reset_empty_noop:
  "GCUniquePtr_Reset dbg (GCUniquePtr None) w = Inr (GCUniquePtr None, w) \<and>
   GCWeakPtr_Reset dbg (GCWeakPtr None) w = Inr (GCWeakPtr None, w)"
  by (simp add: GCUniquePtr_Reset_def GCWeakPtr_Reset_def)

text \<open>
  Claim C2, as amended. \<open>Reset\<close> on a weak handle that holds record \<open>r\<close> at \<open>a\<close>
  decrements the count. If the count does not reach zero nothing else changes. If it
  reaches zero and the object pointer is null the record is freed. If it reaches zero, the
  object pointer is \<open>x\<close> and the record has a collector \<open>c\<close>, the outcome is that of
  \<open>c->Collect(x)\<close> on the world with the decremented record, and the call is the next
  entry of the log. If the record has no
  collector, no call is made and the record stays, with count 0. Whenever \<open>Reset\<close>
  returns, the handle is empty.
\<close>

theorem weak_reset_postcondition:
  assumes "heap w a = Some r"
  shows "(count r \<noteq> 1 \<longrightarrow>
            GCWeakPtr_Reset dbg (GCWeakPtr (Some a)) w =
              Inr (GCWeakPtr None, w\<lparr>heap := (heap w)(a \<mapsto> r\<lparr>count := count r - 1\<rparr>)\<rparr>)) \<and>
         (count r = 1 \<and> ptr r = None \<longrightarrow>
            GCWeakPtr_Reset dbg (GCWeakPtr (Some a)) w =
              Inr (GCWeakPtr None, w\<lparr>heap := (heap w)(a := None)\<rparr>)) \<and>
         (count r = 1 \<and> ptr r = Some x \<and> pCollector r = Some c \<longrightarrow>
            GCWeakPtr_Reset dbg (GCWeakPtr (Some a)) w =
              (case GCConcreteFactory_Collect dbg c (Some x)
                      (w\<lparr>heap := (heap w)(a \<mapsto> r\<lparr>count := 0\<rparr>)\<rparr>) of
                 Inl e \<Rightarrow> Inl e
               | Inr w' \<Rightarrow> Inr (GCWeakPtr None, w')) \<and>
            (\<forall>h' w'. GCWeakPtr_Reset dbg (GCWeakPtr (Some a)) w = Inr (h', w') \<longrightarrow>
               (\<exists>rest. calls w' = calls w @ CollectCall c (Some x) # rest))) \<and>
         (count r = 1 \<and> ptr r = Some x \<and> pCollector r = None \<longrightarrow>
            GCWeakPtr_Reset dbg (GCWeakPtr (Some a)) w =
              Inr (GCWeakPtr None, w\<lparr>heap := (heap w)(a \<mapsto> r\<lparr>count := 0\<rparr>)\<rparr>)) \<and>
         (\<forall>h' w'. GCWeakPtr_Reset dbg (GCWeakPtr (Some a)) w = Inr (h', w') \<longrightarrow>
            h' = GCWeakPtr None)"
proof -
  have logged: "\<exists>rest. calls w' = calls w @ CollectCall c (Some x) # rest"
    if "count r = 1" "ptr r = Some x" "pCollector r = Some c"
       "GCWeakPtr_Reset dbg (GCWeakPtr (Some a)) w = Inr (h', w')" for h' w'
  proof -
    from that assms
    have "GCConcreteFactory_Collect dbg c (Some x) (w\<lparr>heap := (heap w)(a \<mapsto> r\<lparr>count := 0\<rparr>)\<rparr>) = Inr w'"
      by (auto simp add: GCWeakPtr_Reset_def Let_def split: sum.splits)
    from collect_logged [OF this] show ?thesis by simp
  qed
  have rest: "(count r \<noteq> 1 \<longrightarrow>
            GCWeakPtr_Reset dbg (GCWeakPtr (Some a)) w =
              Inr (GCWeakPtr None, w\<lparr>heap := (heap w)(a \<mapsto> r\<lparr>count := count r - 1\<rparr>)\<rparr>)) \<and>
         (count r = 1 \<and> ptr r = None \<longrightarrow>
            GCWeakPtr_Reset dbg (GCWeakPtr (Some a)) w =
              Inr (GCWeakPtr None, w\<lparr>heap := (heap w)(a := None)\<rparr>)) \<and>
         (count r = 1 \<and> ptr r = Some x \<and> pCollector r = Some c \<longrightarrow>
            GCWeakPtr_Reset dbg (GCWeakPtr (Some a)) w =
              (case GCConcreteFactory_Collect dbg c (Some x)
                      (w\<lparr>heap := (heap w)(a \<mapsto> r\<lparr>count := 0\<rparr>)\<rparr>) of
                 Inl e \<Rightarrow> Inl e
               | Inr w' \<Rightarrow> Inr (GCWeakPtr None, w'))) \<and>
         (count r = 1 \<and> ptr r = Some x \<and> pCollector r = None \<longrightarrow>
            GCWeakPtr_Reset dbg (GCWeakPtr (Some a)) w =
              Inr (GCWeakPtr None, w\<lparr>heap := (heap w)(a \<mapsto> r\<lparr>count := 0\<rparr>)\<rparr>)) \<and>
         (\<forall>h' w'. GCWeakPtr_Reset dbg (GCWeakPtr (Some a)) w = Inr (h', w') \<longrightarrow>
            h' = GCWeakPtr None)"
    using assms
    by (auto simp add: GCWeakPtr_Reset_def Let_def split: option.splits sum.splits)
  from rest logged show ?thesis by blast
qed

theorem weak_reset_postcondition_witness:
  "GCWeakPtr_Reset True (GCWeakPtr (Some 0))
     (world_of [(0, \<lparr>count = 2, ptr = Some 7, pCollector = Some 3\<rparr>)] []) =
     Inr (GCWeakPtr None, world_of [(0, \<lparr>count = 1, ptr = Some 7, pCollector = Some 3\<rparr>)] []) \<and>
   GCWeakPtr_Reset True (GCWeakPtr (Some 0))
     (world_of [(0, \<lparr>count = 1, ptr = None, pCollector = Some 3\<rparr>)] []) =
     Inr (GCWeakPtr None, world_of [] []) \<and>
   GCWeakPtr_Reset True (GCWeakPtr (Some 0))
     (world_of [(0, \<lparr>count = 1, ptr = Some 7, pCollector = Some 3\<rparr>)]
               [(3, \<lparr>mLiveList = [GCUniquePtr (Some 0)], mCleaningUp = False\<rparr>)]) =
     Inr (GCWeakPtr None,
          world_of [] [(3, \<lparr>mLiveList = [], mCleaningUp = False\<rparr>)]
            \<lparr>calls := [CollectCall 3 (Some 7), DestroyCall 3 (Some 7)]\<rparr>) \<and>
   GCWeakPtr_Reset True (GCWeakPtr (Some 0))
     (world_of [(0, \<lparr>count = 1, ptr = Some 7, pCollector = None\<rparr>)] []) =
     Inr (GCWeakPtr None, world_of [(0, \<lparr>count = 0, ptr = Some 7, pCollector = None\<rparr>)] [])"
proof -
  define r1 :: GCCounter where "r1 = \<lparr>count = 2, ptr = Some 7, pCollector = Some 3\<rparr>"
  define r2 :: GCCounter where "r2 = \<lparr>count = 1, ptr = None, pCollector = Some 3\<rparr>"
  define r3 :: GCCounter where "r3 = \<lparr>count = 1, ptr = Some 7, pCollector = Some 3\<rparr>"
  define r4 :: GCCounter where "r4 = \<lparr>count = 1, ptr = Some 7, pCollector = None\<rparr>"
  define fs where "fs = [(3::cid, \<lparr>mLiveList = [GCUniquePtr (Some 0)], mCleaningUp = False\<rparr>)]"
  have h1: "heap (world_of [(0, r1)] []) 0 = Some r1" by (simp add: world_of_def)
  have h2: "heap (world_of [(0, r2)] []) 0 = Some r2" by (simp add: world_of_def)
  have h3: "heap (world_of [(0, r3)] fs) 0 = Some r3" by (simp add: world_of_def)
  have h4: "heap (world_of [(0, r4)] []) 0 = Some r4" by (simp add: world_of_def)
  have c1: "count r1 \<noteq> 1" by (simp add: r1_def)
  have c2: "count r2 = 1 \<and> ptr r2 = None" by (simp add: r2_def)
  have c3: "count r3 = 1 \<and> ptr r3 = Some 7 \<and> pCollector r3 = Some 3" by (simp add: r3_def)
  have c4: "count r4 = 1 \<and> ptr r4 = Some 7 \<and> pCollector r4 = None" by (simp add: r4_def)
  from weak_reset_postcondition [OF h1, of True 7 3] c1
  have "GCWeakPtr_Reset True (GCWeakPtr (Some 0)) (world_of [(0, r1)] []) =
          Inr (GCWeakPtr None,
               world_of [(0, r1)] []
                 \<lparr>heap := (heap (world_of [(0, r1)] []))(0 \<mapsto> r1\<lparr>count := count r1 - 1\<rparr>)\<rparr>)"
    by blast
  then have a1: "GCWeakPtr_Reset True (GCWeakPtr (Some 0)) (world_of [(0, r1)] []) =
          Inr (GCWeakPtr None,
               world_of [(0, \<lparr>count = 1, ptr = Some 7, pCollector = Some 3\<rparr>)] [])"
    by (simp add: world_of_def r1_def)
  from weak_reset_postcondition [OF h2, of True 7 3] c2
  have "GCWeakPtr_Reset True (GCWeakPtr (Some 0)) (world_of [(0, r2)] []) =
          Inr (GCWeakPtr None,
               world_of [(0, r2)] [] \<lparr>heap := (heap (world_of [(0, r2)] []))(0 := None)\<rparr>)"
    by blast
  then have a2: "GCWeakPtr_Reset True (GCWeakPtr (Some 0)) (world_of [(0, r2)] []) =
          Inr (GCWeakPtr None, world_of [] [])"
    by (simp add: world_of_def)
  from weak_reset_postcondition [OF h3, of True 7 3] c3
  have "GCWeakPtr_Reset True (GCWeakPtr (Some 0)) (world_of [(0, r3)] fs) =
          (case GCConcreteFactory_Collect True 3 (Some 7)
                  (world_of [(0, r3)] fs
                     \<lparr>heap := (heap (world_of [(0, r3)] fs))(0 \<mapsto> r3\<lparr>count := 0\<rparr>)\<rparr>) of
             Inl e \<Rightarrow> Inl e
           | Inr w' \<Rightarrow> Inr (GCWeakPtr None, w'))"
    by blast
  moreover have "world_of [(0, r3)] fs
                     \<lparr>heap := (heap (world_of [(0, r3)] fs))(0 \<mapsto> r3\<lparr>count := 0\<rparr>)\<rparr> =
                 world_of [(0, \<lparr>count = 0, ptr = Some 7, pCollector = Some 3\<rparr>)] fs"
    by (simp add: world_of_def r3_def)
  ultimately have "GCWeakPtr_Reset True (GCWeakPtr (Some 0)) (world_of [(0, r3)] fs) =
          (case GCConcreteFactory_Collect True 3 (Some 7)
                  (world_of [(0, \<lparr>count = 0, ptr = Some 7, pCollector = Some 3\<rparr>)] fs) of
             Inl e \<Rightarrow> Inl e
           | Inr w' \<Rightarrow> Inr (GCWeakPtr None, w'))"
    by (simp only:)
  then have a3: "GCWeakPtr_Reset True (GCWeakPtr (Some 0)) (world_of [(0, r3)] fs) =
          Inr (GCWeakPtr None,
               world_of [] [(3, \<lparr>mLiveList = [], mCleaningUp = False\<rparr>)]
                 \<lparr>calls := [CollectCall 3 (Some 7), DestroyCall 3 (Some 7)]\<rparr>)"
    unfolding fs_def by (simp only: collect_eval sum.case)
  from weak_reset_postcondition [OF h4, of True 7 3] c4
  have "GCWeakPtr_Reset True (GCWeakPtr (Some 0)) (world_of [(0, r4)] []) =
          Inr (GCWeakPtr None,
               world_of [(0, r4)] []
                 \<lparr>heap := (heap (world_of [(0, r4)] []))(0 \<mapsto> r4\<lparr>count := 0\<rparr>)\<rparr>)"
    by blast
  then have a4: "GCWeakPtr_Reset True (GCWeakPtr (Some 0)) (world_of [(0, r4)] []) =
          Inr (GCWeakPtr None,
               world_of [(0, \<lparr>count = 0, ptr = Some 7, pCollector = None\<rparr>)] [])"
    by (simp add: world_of_def r4_def)
  from a1 a2 a3 a4 show ?thesis
    unfolding r1_def r2_def r3_def r4_def fs_def by (intro conjI)
qed

text \<open>
  Against C2 as stated: a record without collector (as \<open>GCThisPtr\<close> creates it), count 1,
  object pointer 9. The count reaches zero with the object pointer non-null, and no
  \<open>Collect\<close> call is made.
\<close>

theorem weak_reset_collect_counterexample:
  "GCWeakPtr_Reset False (GCWeakPtr (Some 4))
     (world_of [(4, \<lparr>count = 1, ptr = Some 9, pCollector = None\<rparr>)] []) =
     Inr (GCWeakPtr None, world_of [(4, \<lparr>count = 0, ptr = Some 9, pCollector = None\<rparr>)] []) \<and>
   calls (world_of [(4, \<lparr>count = 0, ptr = Some 9, pCollector = None\<rparr>)] []) = []"
  by (simp add: world_of_def GCWeakPtr_Reset_def)

text \<open>
  Claim C10. For a record without collector, whose count is 1 and whose object pointer is
  non-null, \<open>Reset\<close> of the weak handle makes no call and frees nothing: the record stays
  with count 0 and its object pointer. The destructor of the \<open>GCThisPtr\<close> then frees it;
  in general that destructor frees the record exactly when its count is 0 and else sets
  the object pointer to null.
\<close>

theorem weak_reset_without_collector:
  assumes "heap w a = Some r" and "pCollector r = None" and "count r = 1" and "ptr r = Some x"
  shows "GCWeakPtr_Reset dbg (GCWeakPtr (Some a)) w =
           Inr (GCWeakPtr None, w\<lparr>heap := (heap w)(a \<mapsto> r\<lparr>count := 0\<rparr>)\<rparr>) \<and>
         GCThisPtr_delete (GCThisPtr a) (w\<lparr>heap := (heap w)(a \<mapsto> r\<lparr>count := 0\<rparr>)\<rparr>) =
           Inr (w\<lparr>heap := (heap w)(a := None)\<rparr>) \<and>
         (\<forall>w' r'. heap w' a = Some r' \<longrightarrow>
            GCThisPtr_delete (GCThisPtr a) w' =
              Inr (w'\<lparr>heap := (heap w')(a := if count r' = 0 then None
                                               else Some (r'\<lparr>ptr := None\<rparr>))\<rparr>))"
  using assms by (simp add: GCWeakPtr_Reset_def GCThisPtr_delete_def Let_def)

theorem weak_reset_without_collector_witness:
  "GCWeakPtr_Reset True (GCWeakPtr (Some 0))
     (world_of [(0, \<lparr>count = 1, ptr = Some 7, pCollector = None\<rparr>)] []) =
   Inr (GCWeakPtr None, world_of [(0, \<lparr>count = 0, ptr = Some 7, pCollector = None\<rparr>)] []) \<and>
   GCThisPtr_delete (GCThisPtr 0)
     (world_of [(0, \<lparr>count = 0, ptr = Some 7, pCollector = None\<rparr>)] []) =
   Inr (world_of [] [])"
proof -
  define r :: GCCounter where "r = \<lparr>count = 1, ptr = Some 7, pCollector = None\<rparr>"
  define w where "w = world_of [(0, r)] []"
  have h: "heap w 0 = Some r" "pCollector r = None" "count r = 1" "ptr r = Some 7"
    by (simp_all add: w_def r_def world_of_def)
  from weak_reset_without_collector [OF h, of True] show ?thesis
    by (simp add: w_def r_def world_of_def)
qed

text \<open>
  Claim C4. A record with object \<open>x\<close>, a collector \<open>c\<close> and a non-zero count (weak
  handles are attached). \<open>Reset\<close> of the owning handle calls \<open>Destroy(x)\<close> once and sets
  the object pointer to null; the record stays. A weak handle on the record reads the same
  \<open>GetCount()\<close> as before, \<open>GetPtr()\<close> is null and dereferencing fails. When the count is 1,
  \<open>Reset\<close> of that last weak handle frees the record and makes no further call.
\<close>

theorem owner_release_keeps_weak_attached:
  assumes "heap w a = Some r" and "ptr r = Some x" and "pCollector r = Some c"
      and "factories w c = Some f" and "count r \<noteq> 0"
  shows "\<exists>w1. GCUniquePtr_Reset dbg (GCUniquePtr (Some a)) w = Inr (GCUniquePtr None, w1) \<and>
           calls w1 = calls w @ [DestroyCall c (Some x)] \<and>
           heap w1 = (heap w)(a \<mapsto> r\<lparr>ptr := None\<rparr>) \<and>
           GCWeakPtr_GetCount (GCWeakPtr (Some a)) w1 = GCWeakPtr_GetCount (GCWeakPtr (Some a)) w \<and>
           GCWeakPtr_GetCount (GCWeakPtr (Some a)) w1 = Inr (unat (count r)) \<and>
           GCWeakPtr_GetPtr (GCWeakPtr (Some a)) w1 = Inr None \<and>
           GCWeakPtr_deref dbg (GCWeakPtr (Some a)) w1 =
             Inl (if dbg then AssertionFailed else NullDereference) \<and>
           (count r = 1 \<longrightarrow>
              (\<exists>w2. GCWeakPtr_Reset dbg (GCWeakPtr (Some a)) w1 = Inr (GCWeakPtr None, w2) \<and>
                    heap w2 = (heap w)(a := None) \<and> calls w2 = calls w1))"
  using assms
  by (simp add: GCUniquePtr_Reset_def GCConcreteFactory_Destroy_def E_ASSERT_fails_def
      GCWeakPtr_GetCount_def GCWeakPtr_GetPtr_def GCWeakPtr_deref_def GCWeakPtr_Reset_def)

theorem owner_release_keeps_weak_attached_witness:
  "\<exists>w1 w2. GCUniquePtr_Reset True (GCUniquePtr (Some 0))
           (world_of [(0, \<lparr>count = 1, ptr = Some 7, pCollector = Some 3\<rparr>)]
                     [(3, GCConcreteFactory_new)]) = Inr (GCUniquePtr None, w1) \<and>
         calls w1 = [DestroyCall 3 (Some 7)] \<and>
         heap w1 0 = Some \<lparr>count = 1, ptr = None, pCollector = Some 3\<rparr> \<and>
         GCWeakPtr_GetCount (GCWeakPtr (Some 0)) w1 = Inr 1 \<and>
         GCWeakPtr_GetPtr (GCWeakPtr (Some 0)) w1 = Inr None \<and>
         GCWeakPtr_deref True (GCWeakPtr (Some 0)) w1 = Inl AssertionFailed \<and>
         GCWeakPtr_Reset True (GCWeakPtr (Some 0)) w1 = Inr (GCWeakPtr None, w2) \<and>
         heap w2 0 = None \<and> calls w2 = [DestroyCall 3 (Some 7)]"
proof -
  define r :: GCCounter where "r = \<lparr>count = 1, ptr = Some 7, pCollector = Some 3\<rparr>"
  define w where "w = world_of [(0, r)] [(3, GCConcreteFactory_new)]"
  have h: "heap w 0 = Some r" "ptr r = Some 7" "pCollector r = Some 3"
      "factories w 3 = Some GCConcreteFactory_new" "count r \<noteq> 0"
    by (simp_all add: w_def r_def world_of_def)
  have one: "count r = 1" by (simp add: r_def)
  from owner_release_keeps_weak_attached [OF h, of True]
  obtain w1 where w1:
    "GCUniquePtr_Reset True (GCUniquePtr (Some 0)) w = Inr (GCUniquePtr None, w1)"
    "calls w1 = calls w @ [DestroyCall 3 (Some 7)]"
    "heap w1 = (heap w)(0 \<mapsto> r\<lparr>ptr := None\<rparr>)"
    "GCWeakPtr_GetCount (GCWeakPtr (Some 0)) w1 = Inr (unat (count r))"
    "GCWeakPtr_GetPtr (GCWeakPtr (Some 0)) w1 = Inr None"
    "GCWeakPtr_deref True (GCWeakPtr (Some 0)) w1 = Inl AssertionFailed"
    and last: "count r = 1 \<longrightarrow>
       (\<exists>w2. GCWeakPtr_Reset True (GCWeakPtr (Some 0)) w1 = Inr (GCWeakPtr None, w2) \<and>
             heap w2 = (heap w)(0 := None) \<and> calls w2 = calls w1)"
    by auto
  from last one obtain w2 where w2:
    "GCWeakPtr_Reset True (GCWeakPtr (Some 0)) w1 = Inr (GCWeakPtr None, w2)"
    "heap w2 = (heap w)(0 := None)" "calls w2 = calls w1"
    by blast
  have "calls w = []" by (simp add: w_def world_of_def)
  with w1 w2 have body:
    "GCUniquePtr_Reset True (GCUniquePtr (Some 0)) w = Inr (GCUniquePtr None, w1) \<and>
     calls w1 = [DestroyCall 3 (Some 7)] \<and>
     heap w1 0 = Some \<lparr>count = 1, ptr = None, pCollector = Some 3\<rparr> \<and>
     GCWeakPtr_GetCount (GCWeakPtr (Some 0)) w1 = Inr 1 \<and>
     GCWeakPtr_GetPtr (GCWeakPtr (Some 0)) w1 = Inr None \<and>
     GCWeakPtr_deref True (GCWeakPtr (Some 0)) w1 = Inl AssertionFailed \<and>
     GCWeakPtr_Reset True (GCWeakPtr (Some 0)) w1 = Inr (GCWeakPtr None, w2) \<and>
     heap w2 0 = None \<and> calls w2 = [DestroyCall 3 (Some 7)]"
    by (simp add: r_def)
  show ?thesis
    unfolding w_def [symmetric] r_def [symmetric]
    by (rule exI [of _ w1], rule exI [of _ w2]) (rule body)
qed

subsection \<open>GCConcreteFactory\<close>

text \<open>
  Claim C3. \<open>Collect(p)\<close> on factory \<open>c\<close>. With the teardown flag set the call returns and
  changes nothing but the log of calls. Without it, when no live-list entry compares equal
  to \<open>p\<close>, the call stops at \<open>E_ASSERT_ALWAYS\<close>. When \<open>i\<close> is the first position whose
  entry compares equal to \<open>p\<close>, a call that returns leaves the live list with exactly that
  one entry removed (the last entry moves into its place, so the list is one shorter and
  every other entry occurs as often as before), and the call does return when the entry is
  an owning handle of this factory for the object \<open>p\<close>: after \<open>Collect\<close>, \<open>Destroy\<close> has
  been called once for it.
\<close>

theorem collect_behaviour:
  assumes "factories w c = Some f"
  shows "(mCleaningUp f \<longrightarrow>
            GCConcreteFactory_Collect dbg c p w = Inr (w\<lparr>calls := calls w @ [CollectCall c p]\<rparr>)) \<and>
         (\<not> mCleaningUp f \<and> (\<forall>e\<in>set (mLiveList f). GCUniquePtr_eq_raw e p w = Inr False) \<longrightarrow>
            GCConcreteFactory_Collect dbg c p w = Inl AssertionFailed) \<and>
         (\<not> mCleaningUp f \<and> i < length (mLiveList f) \<and>
          GCUniquePtr_eq_raw (mLiveList f ! i) p w = Inr True \<and>
          (\<forall>j<i. GCUniquePtr_eq_raw (mLiveList f ! j) p w = Inr False) \<longrightarrow>
            (\<forall>w'. GCConcreteFactory_Collect dbg c p w = Inr w' \<longrightarrow>
               (\<exists>f'. factories w' c = Some f' \<and> mCleaningUp f' = mCleaningUp f \<and>
                     mLiveList f' = List_RemoveFast i (mLiveList f) \<and>
                     length (mLiveList f') + 1 = length (mLiveList f) \<and>
                     (\<forall>e. count_list (mLiveList f') e =
                            count_list (mLiveList f) e - (if e = mLiveList f ! i then 1 else 0)))) \<and>
            (\<forall>a r x. mLiveList f ! i = GCUniquePtr (Some a) \<and> heap w a = Some r \<and>
                      p = Some x \<and> pCollector r = Some c \<longrightarrow>
               (\<exists>w'. GCConcreteFactory_Collect dbg c p w = Inr w' \<and>
                     calls w' = calls w @ [CollectCall c p, DestroyCall c p] \<and>
                     heap w' = (heap w)(a := if count r = 0 then None
                                             else Some (r\<lparr>ptr := None\<rparr>)))))"
proof (intro conjI impI allI)
  assume "mCleaningUp f"
  with assms show "GCConcreteFactory_Collect dbg c p w = Inr (w\<lparr>calls := calls w @ [CollectCall c p]\<rparr>)"
    by (simp add: GCConcreteFactory_Collect_def)
next
  assume "\<not> mCleaningUp f \<and> (\<forall>e\<in>set (mLiveList f). GCUniquePtr_eq_raw e p w = Inr False)"
  then have "\<not> mCleaningUp f" and "find_live w (mLiveList f) p = Inr None"
    by (simp_all add: find_live_none)
  with assms show "GCConcreteFactory_Collect dbg c p w = Inl AssertionFailed"
    by (simp add: GCConcreteFactory_Collect_def)
next
  fix w'
  assume h: "\<not> mCleaningUp f \<and> i < length (mLiveList f) \<and>
          GCUniquePtr_eq_raw (mLiveList f ! i) p w = Inr True \<and>
          (\<forall>j<i. GCUniquePtr_eq_raw (mLiveList f ! j) p w = Inr False)"
    and ret: "GCConcreteFactory_Collect dbg c p w = Inr w'"
  from h have found: "find_live w (mLiveList f) p = Inr (Some i)"
    by (simp add: find_live_first)
  define w1 where "w1 = set_factory c (f\<lparr>mLiveList := List_RemoveFast i (mLiveList f)\<rparr>)
                          (w\<lparr>calls := calls w @ [CollectCall c p]\<rparr>)"
  from ret assms h found obtain h' where "GCUniquePtr_Reset dbg (mLiveList f ! i) w1 = Inr (h', w')"
    by (auto simp add: GCConcreteFactory_Collect_def w1_def split: sum.splits)
  then have "factories w' = factories w1" by (rule unique_reset_factories)
  then have "factories w' c = Some (f\<lparr>mLiveList := List_RemoveFast i (mLiveList f)\<rparr>)"
    by (simp add: w1_def set_factory_def)
  moreover from h have "length (List_RemoveFast i (mLiveList f)) + 1 = length (mLiveList f)"
    by (auto simp add: length_RemoveFast)
  moreover from h have "\<forall>e. count_list (List_RemoveFast i (mLiveList f)) e =
      count_list (mLiveList f) e - (if e = mLiveList f ! i then 1 else 0)"
    by (simp add: count_list_RemoveFast)
  ultimately show "\<exists>f'. factories w' c = Some f' \<and> mCleaningUp f' = mCleaningUp f \<and>
                     mLiveList f' = List_RemoveFast i (mLiveList f) \<and>
                     length (mLiveList f') + 1 = length (mLiveList f) \<and>
                     (\<forall>e. count_list (mLiveList f') e =
                            count_list (mLiveList f) e - (if e = mLiveList f ! i then 1 else 0))"
    by simp
next
  fix a r x
  assume h: "\<not> mCleaningUp f \<and> i < length (mLiveList f) \<and>
          GCUniquePtr_eq_raw (mLiveList f ! i) p w = Inr True \<and>
          (\<forall>j<i. GCUniquePtr_eq_raw (mLiveList f ! j) p w = Inr False)"
    and e: "mLiveList f ! i = GCUniquePtr (Some a) \<and> heap w a = Some r \<and>
                      p = Some x \<and> pCollector r = Some c"
  from h have found: "find_live w (mLiveList f) p = Inr (Some i)"
    by (simp add: find_live_first)
  from h e have "ptr r = Some x" by (simp add: GCUniquePtr_eq_raw_def)
  with assms h e found
  show "\<exists>w'. GCConcreteFactory_Collect dbg c p w = Inr w' \<and>
                     calls w' = calls w @ [CollectCall c p, DestroyCall c p] \<and>
                     heap w' = (heap w)(a := if count r = 0 then None
                                             else Some (r\<lparr>ptr := None\<rparr>))"
    by (simp add: GCConcreteFactory_Collect_def GCUniquePtr_Reset_def set_factory_def
        GCConcreteFactory_Destroy_def E_ASSERT_fails_def)
qed

theorem collect_behaviour_witness:
  "GCConcreteFactory_Collect True 3 (Some 7)
     (world_of [(0, \<lparr>count = 0, ptr = Some 7, pCollector = Some 3\<rparr>)]
               [(3, \<lparr>mLiveList = [GCUniquePtr (Some 0)], mCleaningUp = True\<rparr>)]) =
     Inr (world_of [(0, \<lparr>count = 0, ptr = Some 7, pCollector = Some 3\<rparr>)]
                   [(3, \<lparr>mLiveList = [GCUniquePtr (Some 0)], mCleaningUp = True\<rparr>)]
            \<lparr>calls := [CollectCall 3 (Some 7)]\<rparr>) \<and>
   GCConcreteFactory_Collect True 3 (Some 8)
     (world_of [(0, \<lparr>count = 0, ptr = Some 7, pCollector = Some 3\<rparr>)]
               [(3, \<lparr>mLiveList = [GCUniquePtr (Some 0)], mCleaningUp = False\<rparr>)]) =
     Inl AssertionFailed \<and>
   (\<exists>w'. GCConcreteFactory_Collect True 3 (Some 5)
            (world_of [(0, \<lparr>count = 0, ptr = Some 5, pCollector = Some 3\<rparr>),
                       (1, \<lparr>count = 1, ptr = Some 6, pCollector = Some 3\<rparr>),
                       (2, \<lparr>count = 1, ptr = Some 7, pCollector = Some 3\<rparr>)]
                      [(3, \<lparr>mLiveList = [GCUniquePtr (Some 0), GCUniquePtr (Some 1),
                                          GCUniquePtr (Some 2)],
                            mCleaningUp = False\<rparr>)]) = Inr w' \<and>
          factories w' 3 =
            Some \<lparr>mLiveList = [GCUniquePtr (Some 2), GCUniquePtr (Some 1)], mCleaningUp = False\<rparr> \<and>
          calls w' = [CollectCall 3 (Some 5), DestroyCall 3 (Some 5)] \<and>
          heap w' 0 = None)"
proof -
  define r :: GCCounter where "r = \<lparr>count = 0, ptr = Some 7, pCollector = Some 3\<rparr>"
  define fa where "fa = \<lparr>mLiveList = [GCUniquePtr (Some 0)], mCleaningUp = True\<rparr>"
  define fb where "fb = \<lparr>mLiveList = [GCUniquePtr (Some 0)], mCleaningUp = False\<rparr>"
  define wa where "wa = world_of [(0, r)] [(3, fa)]"
  define wb where "wb = world_of [(0, r)] [(3, fb)]"
  define r0 :: GCCounter where "r0 = \<lparr>count = 0, ptr = Some 5, pCollector = Some 3\<rparr>"
  define fc where "fc = \<lparr>mLiveList = [GCUniquePtr (Some 0), GCUniquePtr (Some 1),
                                          GCUniquePtr (Some 2)], mCleaningUp = False\<rparr>"
  define wc where "wc = world_of [(0, r0),
                       (1, \<lparr>count = 1, ptr = Some 6, pCollector = Some 3\<rparr>),
                       (2, \<lparr>count = 1, ptr = Some 7, pCollector = Some 3\<rparr>)] [(3, fc)]"
  have ha: "factories wa 3 = Some fa" by (simp add: wa_def world_of_def)
  have hb: "factories wb 3 = Some fb" by (simp add: wb_def world_of_def)
  have hc: "factories wc 3 = Some fc" by (simp add: wc_def world_of_def)
  have ca: "mCleaningUp fa" by (simp add: fa_def)
  from collect_behaviour [OF ha, of True "Some 7" 0] ca
  have "GCConcreteFactory_Collect True 3 (Some 7) wa =
             Inr (wa\<lparr>calls := calls wa @ [CollectCall 3 (Some 7)]\<rparr>)"
    by blast
  moreover have "calls wa = []" by (simp add: wa_def world_of_def)
  ultimately have a: "GCConcreteFactory_Collect True 3 (Some 7) wa =
             Inr (wa\<lparr>calls := [CollectCall 3 (Some 7)]\<rparr>)"
    by simp
  have cb: "\<not> mCleaningUp fb \<and>
            (\<forall>e\<in>set (mLiveList fb). GCUniquePtr_eq_raw e (Some 8) wb = Inr False)"
    by (simp add: fb_def wb_def r_def world_of_def GCUniquePtr_eq_raw_def)
  from collect_behaviour [OF hb, of True "Some 8" 0] cb
  have b: "GCConcreteFactory_Collect True 3 (Some 8) wb = Inl AssertionFailed"
    by blast
  have pre: "\<not> mCleaningUp fc \<and> 0 < length (mLiveList fc) \<and>
          GCUniquePtr_eq_raw (mLiveList fc ! 0) (Some 5) wc = Inr True \<and>
          (\<forall>j<0. GCUniquePtr_eq_raw (mLiveList fc ! j) (Some 5) wc = Inr False)"
    by (simp add: fc_def wc_def r0_def world_of_def GCUniquePtr_eq_raw_def)
  have ent: "mLiveList fc ! 0 = GCUniquePtr (Some 0) \<and> heap wc 0 = Some r0 \<and>
             Some (5::nat) = Some 5 \<and> pCollector r0 = Some 3"
    by (simp add: fc_def wc_def r0_def world_of_def)
  note cc = collect_behaviour [OF hc, of True "Some 5" 0, THEN conjunct2, THEN conjunct2,
      THEN mp, OF pre]
  from cc [THEN conjunct2, THEN spec, THEN spec, THEN spec, THEN mp, OF ent]
  obtain w' where w': "GCConcreteFactory_Collect True 3 (Some 5) wc = Inr w'"
      "calls w' = calls wc @ [CollectCall 3 (Some 5), DestroyCall 3 (Some 5)]"
      "heap w' = (heap wc)(0 := if count r0 = 0 then None else Some (r0\<lparr>ptr := None\<rparr>))"
    by blast
  from cc [THEN conjunct1, THEN spec, THEN mp, OF w'(1)]
  obtain f' where f': "factories w' 3 = Some f'" "mCleaningUp f' = mCleaningUp fc"
      "mLiveList f' = List_RemoveFast 0 (mLiveList fc)"
    by blast
  have "List_RemoveFast 0 (mLiveList fc) = [GCUniquePtr (Some 2), GCUniquePtr (Some 1)]"
    by (simp add: fc_def List_RemoveFast_def)
  with f' have l: "mLiveList f' = [GCUniquePtr (Some 2), GCUniquePtr (Some 1)]" by simp
  from f' have m: "mCleaningUp f' = False" by (simp add: fc_def)
  from l m have "f' = \<lparr>mLiveList = [GCUniquePtr (Some 2), GCUniquePtr (Some 1)],
                        mCleaningUp = False\<rparr>"
    by (cases f') simp
  with f' have fw: "factories w' 3 =
      Some \<lparr>mLiveList = [GCUniquePtr (Some 2), GCUniquePtr (Some 1)], mCleaningUp = False\<rparr>"
    by simp
  have "calls wc = []" by (simp add: wc_def world_of_def)
  with w' have cw: "calls w' = [CollectCall 3 (Some 5), DestroyCall 3 (Some 5)]" by simp
  from w' have hw: "heap w' 0 = None" by (simp add: r0_def)
  from w'(1) fw cw hw
  have c: "\<exists>w'. GCConcreteFactory_Collect True 3 (Some 5) wc = Inr w' \<and>
          factories w' 3 =
            Some \<lparr>mLiveList = [GCUniquePtr (Some 2), GCUniquePtr (Some 1)], mCleaningUp = False\<rparr> \<and>
          calls w' = [CollectCall 3 (Some 5), DestroyCall 3 (Some 5)] \<and>
          heap w' 0 = None"
    by blast
  from a b c show ?thesis
    unfolding wa_def wb_def wc_def fa_def fb_def fc_def r_def r0_def by (intro conjI)
qed

text \<open>
  Claim C8, as amended. When the allocator returns no memory (\<open>p = None\<close>): in a debug
  build \<open>Create\<close> stops at \<open>E_ASSERT_PTR(ptr)\<close>; with assertions compiled out it appends an
  entry with a null object pointer to the live list, whose length grows by one, and returns
  a handle with count 1 that resolves to a null object. No collector call is made.
\<close>

theorem create_null_allocation:
  assumes "factories w c = Some f" and "heap w a = None"
  shows "GCConcreteFactory_Create True c None a w = Inl AssertionFailed \<and>
         (\<exists>w'. GCConcreteFactory_Create False c None a w = Inr (GCWeakPtr (Some a), w') \<and>
               GCWeakPtr_GetPtr (GCWeakPtr (Some a)) w' = Inr None \<and>
               GCWeakPtr_GetCount (GCWeakPtr (Some a)) w' = Inr 1 \<and>
               GCConcreteFactory_GetLiveCount c w' = Inr (length (mLiveList f) + 1) \<and>
               factories w' c = Some (f\<lparr>mLiveList := mLiveList f @ [GCUniquePtr (Some a)]\<rparr>) \<and>
               calls w' = calls w)"
  using assms
  by (simp add: GCConcreteFactory_Create_def E_ASSERT_fails_def GCUniquePtr_new_def
      GCUniquePtr_copy_def GCUniquePtr_Swap_def GCUniquePtr_Reset_def set_factory_def
      GCWeakPtr_from_unique_def GCWeakPtr_attach_def GCWeakPtr_GetPtr_def
      GCWeakPtr_GetCount_def GCConcreteFactory_GetLiveCount_def)

theorem create_null_allocation_witness:
  "GCConcreteFactory_Create True 3 None 0 (world_of [] [(3, GCConcreteFactory_new)]) =
     Inl AssertionFailed \<and>
   (\<exists>w'. GCConcreteFactory_Create False 3 None 0 (world_of [] [(3, GCConcreteFactory_new)]) =
            Inr (GCWeakPtr (Some 0), w') \<and>
          GCWeakPtr_GetPtr (GCWeakPtr (Some 0)) w' = Inr None \<and>
          GCWeakPtr_GetCount (GCWeakPtr (Some 0)) w' = Inr 1 \<and>
          GCConcreteFactory_GetLiveCount 3 w' = Inr 1 \<and>
          calls w' = [])"
proof -
  define w where "w = world_of [] [(3, GCConcreteFactory_new)]"
  have h1: "factories w 3 = Some GCConcreteFactory_new" by (simp add: w_def world_of_def)
  have h2: "heap w 0 = None" by (simp add: w_def world_of_def)
  from create_null_allocation [OF h1 h2] show ?thesis
    by (auto simp add: w_def world_of_def GCConcreteFactory_new_def)
qed

text \<open>
  Against C8 as stated: on a new factory, a debug build returns no handle, and a build
  without assertions registers an entry (\<open>GetLiveCount\<close> is 1 afterwards).
\<close>

theorem create_null_allocation_counterexample:
  "GCConcreteFactory_Create True 3 None 0 (world_of [] [(3, GCConcreteFactory_new)]) =
     Inl AssertionFailed \<and>
   GCConcreteFactory_Create False 3 None 0 (world_of [] [(3, GCConcreteFactory_new)]) =
     Inr (GCWeakPtr (Some 0),
          world_of [(0, \<lparr>count = 1, ptr = None, pCollector = Some 3\<rparr>)]
                   [(3, \<lparr>mLiveList = [GCUniquePtr (Some 0)], mCleaningUp = False\<rparr>)]) \<and>
   GCConcreteFactory_GetLiveCount 3
     (world_of [(0, \<lparr>count = 1, ptr = None, pCollector = Some 3\<rparr>)]
               [(3, \<lparr>mLiveList = [GCUniquePtr (Some 0)], mCleaningUp = False\<rparr>)]) = Inr 1"
  by (simp add: world_of_def GCConcreteFactory_Create_def E_ASSERT_fails_def GCUniquePtr_new_def
      GCUniquePtr_copy_def GCUniquePtr_Swap_def GCUniquePtr_Reset_def set_factory_def
      GCWeakPtr_from_unique_def GCWeakPtr_attach_def GCConcreteFactory_GetLiveCount_def
      GCConcreteFactory_new_def)

text \<open>
  Claim C1. On a new factory \<open>c\<close>, with \<open>a\<close> a free address for the counter record and
  \<open>x\<close> the object the allocator returns: \<open>Create()\<close> returns \<open>H1\<close> with count 1 on the
  object, and the factory has one live entry; the copy \<open>H2\<close> equals \<open>H1\<close> and both read
  count 2; after \<open>H1.Reset()\<close> the count of \<open>H2\<close> is 1, the live count is still 1 and no
  call has been made; \<open>H2.Reset()\<close> makes exactly the calls \<open>Collect(x)\<close>, \<open>Destroy(x)\<close>,
  the live count is 0 and the counter record is freed.
\<close>

theorem factory_lifecycle:
  assumes "factories w c = Some GCConcreteFactory_new" and "heap w a = None"
  shows "\<exists>H1 w1 H2 w2 w3 w4.
           GCConcreteFactory_Create dbg c (Some x) a w = Inr (H1, w1) \<and>
           GCWeakPtr_GetCount H1 w1 = Inr 1 \<and>
           GCWeakPtr_GetPtr H1 w1 = Inr (Some x) \<and>
           GCConcreteFactory_GetLiveCount c w1 = Inr 1 \<and>
           GCWeakPtr_copy H1 w1 = Inr (H2, w2) \<and>
           GCWeakPtr_eq H1 H2 w2 = Inr True \<and>
           GCWeakPtr_GetCount H1 w2 = Inr 2 \<and>
           GCWeakPtr_GetCount H2 w2 = Inr 2 \<and>
           GCWeakPtr_Reset dbg H1 w2 = Inr (GCWeakPtr None, w3) \<and>
           GCWeakPtr_GetCount H2 w3 = Inr 1 \<and>
           GCConcreteFactory_GetLiveCount c w3 = Inr 1 \<and>
           calls w3 = calls w \<and>
           GCWeakPtr_Reset dbg H2 w3 = Inr (GCWeakPtr None, w4) \<and>
           GCConcreteFactory_GetLiveCount c w4 = Inr 0 \<and>
           calls w4 = calls w @ [CollectCall c (Some x), DestroyCall c (Some x)] \<and>
           heap w4 = heap w"
  using assms
  by (simp add: GCConcreteFactory_Create_def E_ASSERT_fails_def GCUniquePtr_new_def
      GCUniquePtr_copy_def GCUniquePtr_Swap_def GCUniquePtr_Reset_def set_factory_def
      GCWeakPtr_from_unique_def GCWeakPtr_attach_def GCWeakPtr_GetPtr_def
      GCWeakPtr_GetCount_def GCConcreteFactory_GetLiveCount_def GCConcreteFactory_new_def
      GCWeakPtr_copy_def GCWeakPtr_eq_def GCWeakPtr_Reset_def GCConcreteFactory_Collect_def
      GCUniquePtr_eq_raw_def List_RemoveFast_def GCConcreteFactory_Destroy_def Let_def
      fun_upd_idem)

theorem factory_lifecycle_witness:
  "\<exists>H1 w1 H2 w2 w3 w4.
     GCConcreteFactory_Create True 3 (Some 7) 0 (world_of [] [(3, GCConcreteFactory_new)]) =
       Inr (H1, w1) \<and>
     GCWeakPtr_GetCount H1 w1 = Inr 1 \<and>
     GCWeakPtr_GetPtr H1 w1 = Inr (Some 7) \<and>
     GCConcreteFactory_GetLiveCount 3 w1 = Inr 1 \<and>
     GCWeakPtr_copy H1 w1 = Inr (H2, w2) \<and>
     GCWeakPtr_eq H1 H2 w2 = Inr True \<and>
     GCWeakPtr_GetCount H1 w2 = Inr 2 \<and>
     GCWeakPtr_GetCount H2 w2 = Inr 2 \<and>
     GCWeakPtr_Reset True H1 w2 = Inr (GCWeakPtr None, w3) \<and>
     GCWeakPtr_GetCount H2 w3 = Inr 1 \<and>
     GCConcreteFactory_GetLiveCount 3 w3 = Inr 1 \<and>
     calls w3 = calls (world_of [] [(3, GCConcreteFactory_new)]) \<and>
     GCWeakPtr_Reset True H2 w3 = Inr (GCWeakPtr None, w4) \<and>
     GCConcreteFactory_GetLiveCount 3 w4 = Inr 0 \<and>
     calls w4 = calls (world_of [] [(3, GCConcreteFactory_new)]) @
                  [CollectCall 3 (Some 7), DestroyCall 3 (Some 7)] \<and>
     heap w4 = heap (world_of [] [(3, GCConcreteFactory_new)])"
proof -
  have h1: "factories (world_of [] [(3, GCConcreteFactory_new)]) 3 = Some GCConcreteFactory_new"
    by (simp add: world_of_def)
  have h2: "heap (world_of [] [(3, GCConcreteFactory_new)]) 0 = None"
    by (simp add: world_of_def)
  from factory_lifecycle [OF h1 h2, of True 7] show ?thesis .
qed

end
